theory Spec2Isabelle
  imports Complex_Main "HOL-Library.Word"
begin

section \<open>Data model of the JNI layer\<close>

text \<open>
  The embedding follows \<^verbatim>\<open>extension/android/jni/jni_layer.cpp\<close>. Machine integers
  are words: \<^verbatim>\<open>jint\<close> and C++ \<^verbatim>\<open>int\<close> have 32 bits, \<^verbatim>\<open>jlong\<close> and
  \<^verbatim>\<open>int64_t\<close> have 64 bits, and both are read as two's complement by \<open>sint\<close>.
  A \<^verbatim>\<open>double\<close> is carried as an opaque number: the only operation on doubles that the
  modelled functions perform is the conversion of a 32-bit integer, which is exact.
\<close>

type_synonym jint = "32 word"
type_synonym jlong = "64 word"
type_synonym jdouble = real

text \<open>The numeric value of an enumerator of the runtime's \<^verbatim>\<open>ScalarType\<close>.\<close>
type_synonym ScalarType = int

text \<open>The numeric value of the runtime's \<^verbatim>\<open>Error\<close> (\<^verbatim>\<open>error_code_t\<close>, 32 bits).\<close>
type_synonym Error = "32 word"

text \<open>An address of native memory.\<close>
type_synonym addr = nat

subsection \<open>Native side\<close>

text \<open>
  \<^verbatim>\<open>exec_aten::Tensor\<close> as far as this file reads it: \<^verbatim>\<open>scalar_type()\<close>,
  \<^verbatim>\<open>sizes()\<close> (32-bit \<^verbatim>\<open>SizesType\<close>) and \<^verbatim>\<open>data_ptr()\<close>.
\<close>
record Tensor =
  scalar_type :: ScalarType
  sizes :: "32 word list"
  data_ptr :: addr

text \<open>
  \<^verbatim>\<open>ManagedTensor(data, shape_vec, scalar_type)\<close>; \<^verbatim>\<open>get_aliasing_tensor\<close>
  gives a tensor over the same data.
\<close>
record ManagedTensor =
  mt_data :: addr
  mt_sizes :: "32 word list"
  mt_dtype :: ScalarType

definition get_aliasing_tensor :: "ManagedTensor \<Rightarrow> Tensor" where
  "get_aliasing_tensor mt =
     \<lparr>scalar_type = mt_dtype mt, sizes = mt_sizes mt, data_ptr = mt_data mt\<rparr>"

text \<open>
  The tag of a native \<^verbatim>\<open>EValue\<close>. The five tags that the file tests for are named;
  \<open>TagOther c\<close> stands for every further tag of the runtime's enumeration, \<open>c\<close> being
  its numeric value.
\<close>
datatype Tag = TagTensor | TagString | TagDouble | TagInt | TagBool | TagOther nat

text \<open>The native \<^verbatim>\<open>EValue\<close>, a tagged union.\<close>
datatype EValue =
    ETensor Tensor
  | EInt jlong
  | EDouble jdouble
  | EBool bool
  | EString string
  | EOther nat

fun tag :: "EValue \<Rightarrow> Tag" where
  "tag (ETensor t) = TagTensor"
| "tag (EInt i) = TagInt"
| "tag (EDouble d) = TagDouble"
| "tag (EBool b) = TagBool"
| "tag (EString s) = TagString"
| "tag (EOther c) = TagOther c"

subsection \<open>Managed side\<close>

text \<open>
  A direct buffer as JNI shows it: \<^verbatim>\<open>GetDirectBufferAddress\<close> and
  \<^verbatim>\<open>GetDirectBufferCapacity\<close> (a \<^verbatim>\<open>jlong\<close>).
\<close>
record JBuffer =
  address :: addr
  capacity :: jlong

text \<open>
  The managed tensor \<^verbatim>\<open>org.pytorch.executorch.Tensor\<close> as this file reads it:
  the method \<^verbatim>\<open>dtypeJniCode\<close>, the field \<^verbatim>\<open>shape\<close> and the method
  \<^verbatim>\<open>getRawDataBuffer\<close>.
\<close>
record TensorHybrid =
  dtypeJniCode :: jint
  shape :: "jlong list"
  getRawDataBuffer :: JBuffer

text \<open>
  Modelled from the spec: the managed class \<^verbatim>\<open>org.pytorch.executorch.EValue\<close> is not
  part of this file. The spec's data model describes it as a plain object holding a type
  code plus one field per possible payload type (tensor wrapper, string, double, long,
  boolean); the payloads are named after their accessors.
\<close>
record JEValue =
  mTypeCode :: jint
  toTensor :: TensorHybrid
  toStr :: string
  toDouble :: jdouble
  toInt :: jlong
  toBool :: bool

definition kTypeCodeTensor :: jint where "kTypeCodeTensor = 1"
definition kTypeCodeString :: jint where "kTypeCodeString = 2"
definition kTypeCodeDouble :: jint where "kTypeCodeDouble = 3"
definition kTypeCodeInt :: jint where "kTypeCodeInt = 4"
definition kTypeCodeBool :: jint where "kTypeCodeBool = 5"

subsection \<open>Errors\<close>

text \<open>
  Every \<^verbatim>\<open>throwNewJavaException\<close> of the file, with the values its message formats.
\<close>
datatype JavaException =
    UnsupportedScalarType ScalarType
      \<comment> \<open>"exec\_aten::Tensor scalar type \%d is not supported on java side"\<close>
  | UnsupportedEValueType Tag
      \<comment> \<open>"Unsupported EValue type: \%d"\<close>
  | UnknownTensorJdtype jint
      \<comment> \<open>"Unknown Tensor jdtype \%d"\<close>
  | TensorDimsInconsistent "32 word" jlong
      \<comment> \<open>"Tensor dimensions(elements number:\%d inconsistent with buffer capacity(\%d)"\<close>
  | UnknownEValueTypeCode jint
      \<comment> \<open>"Unknown EValue typeCode \%d"\<close>
  | ExecutionFailed string Error
      \<comment> \<open>"Execution of method \%s failed with status 0x\%x"\<close>

section \<open>Managed to native: tensors\<close>

text \<open>
  One step of \<^verbatim>\<open>numel *= shapeArr[i]\<close>: \<^verbatim>\<open>numel\<close> is an \<^verbatim>\<open>int\<close>
  (\<^verbatim>\<open>auto numel = 1\<close>), the dimension a \<^verbatim>\<open>jlong\<close>. The product is taken at 64 bits,
  wrapping around, and stored back into the \<^verbatim>\<open>int\<close>, which keeps its low 32 bits.
\<close>
definition numel_step :: "32 word \<Rightarrow> jlong \<Rightarrow> 32 word" where
  "numel_step numel d = ucast ((scast numel :: jlong) * d)"

text \<open>
  \<^verbatim>\<open>for (int i = rank - 1; i >= 0; --i) numel *= shapeArr[i];\<close>
  The first argument after the array counts the indices still to visit.
\<close>
fun numel_loop :: "jlong list \<Rightarrow> nat \<Rightarrow> 32 word \<Rightarrow> 32 word" where
  "numel_loop shapeArr 0 numel = numel"
| "numel_loop shapeArr (Suc i) numel = numel_loop shapeArr i (numel_step numel (shapeArr ! i))"

text \<open>
  \<^verbatim>\<open>JEValue::JEValueToTensorImpl\<close>. The table \<^verbatim>\<open>java_dtype_to_scalar_type\<close> is
  declared in \<^verbatim>\<open>jni_layer_constants.h\<close>, which is not part of the sources at hand; it
  is a parameter.
\<close>
definition JEValueToTensorImpl ::
  "(jint \<rightharpoonup> ScalarType) \<Rightarrow> JEValue \<Rightarrow> JavaException + ManagedTensor" where
  "JEValueToTensorImpl java_dtype_to_scalar_type jevalue =
     (let typeCode = mTypeCode jevalue in
      if kTypeCodeTensor = typeCode then
        (let jtensor = toTensor jevalue;
             jdtype = dtypeJniCode jtensor;
             jshape = shape jtensor;
             jbuffer = getRawDataBuffer jtensor;
             rank = length jshape;
             shape_vec = map ucast jshape;
             numel = numel_loop jshape rank 1
         in case java_dtype_to_scalar_type jdtype of
              None \<Rightarrow> Inl (UnknownTensorJdtype jdtype)
            | Some scalar_type' \<Rightarrow>
                (let dataCapacity = capacity jbuffer in
                 if dataCapacity \<noteq> scast numel
                 then Inl (TensorDimsInconsistent numel dataCapacity)
                 else Inr \<lparr>mt_data = address jbuffer, mt_sizes = shape_vec,
                           mt_dtype = scalar_type'\<rparr>))
      else Inl (UnknownEValueTypeCode typeCode))"

section \<open>Managed to native: the inputs of a method call\<close>

text \<open>
  The first loop of \<^verbatim>\<open>ExecuTorchJni::execute_method\<close>, over \<^verbatim>\<open>jinputs\<close>. The
  state is the pair of the vectors \<^verbatim>\<open>evalues\<close> and \<^verbatim>\<open>managed_tensors\<close>. In the
  scalar branches the source reads \<^verbatim>\<open>jevalue->getFieldValue(typeCodeField)\<close> again
  and converts it to \<^verbatim>\<open>int64_t\<close>, \<^verbatim>\<open>double\<close> or \<^verbatim>\<open>bool\<close>.
\<close>
fun convert_inputs ::
  "(jint \<rightharpoonup> ScalarType) \<Rightarrow> JEValue list \<Rightarrow> EValue list \<times> ManagedTensor list
     \<Rightarrow> JavaException + EValue list \<times> ManagedTensor list" where
  "convert_inputs tbl [] st = Inr st"
| "convert_inputs tbl (jevalue # rest) (evalues, managed_tensors) =
     (let typeCode = mTypeCode jevalue in
      if typeCode = kTypeCodeTensor then
        (case JEValueToTensorImpl tbl jevalue of
           Inl e \<Rightarrow> Inl e
         | Inr mt \<Rightarrow>
             convert_inputs tbl rest
               (evalues @ [ETensor (get_aliasing_tensor mt)], managed_tensors @ [mt]))
      else if typeCode = kTypeCodeInt then
        convert_inputs tbl rest
          (evalues @ [EInt (scast (mTypeCode jevalue))], managed_tensors)
      else if typeCode = kTypeCodeDouble then
        convert_inputs tbl rest
          (evalues @ [EDouble (real_of_int (sint (mTypeCode jevalue)))], managed_tensors)
      else if typeCode = kTypeCodeBool then
        convert_inputs tbl rest
          (evalues @ [EBool (mTypeCode jevalue \<noteq> 0)], managed_tensors)
      else convert_inputs tbl rest (evalues, managed_tensors))"

text \<open>
  The native values that one pass of that loop appends to \<^verbatim>\<open>evalues\<close> for the input
  \<^verbatim>\<open>jevalue\<close>: one value in the Tensor, Int, Double and Bool branches, none where
  no branch is taken (and none where the tensor conversion throws).
\<close>
definition input_values :: "(jint \<rightharpoonup> ScalarType) \<Rightarrow> JEValue \<Rightarrow> EValue list" where
  "input_values tbl jevalue =
     (let typeCode = mTypeCode jevalue in
      if typeCode = kTypeCodeTensor then
        (case JEValueToTensorImpl tbl jevalue of
           Inl e \<Rightarrow> []
         | Inr mt \<Rightarrow> [ETensor (get_aliasing_tensor mt)])
      else if typeCode = kTypeCodeInt then [EInt (scast (mTypeCode jevalue))]
      else if typeCode = kTypeCodeDouble then [EDouble (real_of_int (sint (mTypeCode jevalue)))]
      else if typeCode = kTypeCodeBool then [EBool (mTypeCode jevalue \<noteq> 0)]
      else [])"

section \<open>Native to managed\<close>

text \<open>
  What this file needs from outside itself. The two tables
  \<^verbatim>\<open>scalar_type_to_java_dtype\<close> and \<^verbatim>\<open>java_dtype_to_scalar_type\<close> come from
  \<^verbatim>\<open>jni_layer_constants.h\<close>; \<^verbatim>\<open>nbytes\<close> is a member of the runtime's tensor;
  \<^verbatim>\<open>module_execute\<close> is \<^verbatim>\<open>Module::execute\<close>, which returns a
  \<^verbatim>\<open>Result\<close> (an error, \<open>Inl\<close>, or the output values, \<open>Inr\<close>) and may change the
  module, whose state has the type \<open>'m\<close>.
\<close>
record 'm NativeDeps =
  scalar_type_to_java_dtype :: "ScalarType \<rightharpoonup> jint"
  java_dtype_to_scalar_type :: "jint \<rightharpoonup> ScalarType"
  nbytes :: "Tensor \<Rightarrow> nat"
  module_execute :: "'m \<Rightarrow> string \<Rightarrow> EValue list \<Rightarrow> (Error + EValue list) \<times> 'm"

text \<open>
  Modelled from the spec: the managed method \<^verbatim>\<open>Tensor.nativeNewTensor\<close> is not part of
  this file. By the spec the managed tensor wrapper copies the shape as an ordered sequence
  of dimension sizes and exposes a byte view over the native buffer.
\<close>
definition nativeNewTensor :: "JBuffer \<Rightarrow> jlong list \<Rightarrow> jint \<Rightarrow> TensorHybrid" where
  "nativeNewTensor jTensorBuffer jTensorShape jdtype =
     \<lparr>dtypeJniCode = jdtype, shape = jTensorShape, getRawDataBuffer = jTensorBuffer\<rparr>"

text \<open>\<^verbatim>\<open>TensorHybrid::newJTensorFromTensor\<close>.\<close>
definition newJTensorFromTensor :: "'m NativeDeps \<Rightarrow> Tensor \<Rightarrow> JavaException + TensorHybrid" where
  "newJTensorFromTensor deps tensor =
     (let scalarType = scalar_type tensor in
      case scalar_type_to_java_dtype deps scalarType of
        None \<Rightarrow> Inl (UnsupportedScalarType scalarType)
      | Some jdtype \<Rightarrow>
          (let tensor_shape_vec = map scast (sizes tensor) :: jlong list;
               jTensorBuffer = \<lparr>address = data_ptr tensor,
                                capacity = of_nat (nbytes deps tensor)\<rparr>
           in Inr (nativeNewTensor jTensorBuffer tensor_shape_vec jdtype)))"

text \<open>
  Modelled from the spec: the managed factories \<^verbatim>\<open>EValue.from\<close> are not part of this
  file. By the spec each produces the corresponding managed tagged value: the type code of
  the kind and the payload in the field of that kind. The other payload fields hold
  \<open>JEValue_unset\<close>'s values.
\<close>
definition JEValue_unset :: JEValue where
  "JEValue_unset =
     \<lparr>mTypeCode = 0,
      toTensor = \<lparr>dtypeJniCode = 0, shape = [], getRawDataBuffer = \<lparr>address = 0, capacity = 0\<rparr>\<rparr>,
      toStr = [], toDouble = 0, toInt = 0, toBool = False\<rparr>"

definition from_Tensor :: "TensorHybrid \<Rightarrow> JEValue" where
  "from_Tensor t = JEValue_unset\<lparr>mTypeCode := kTypeCodeTensor, toTensor := t\<rparr>"

definition from_long :: "jlong \<Rightarrow> JEValue" where
  "from_long v = JEValue_unset\<lparr>mTypeCode := kTypeCodeInt, toInt := v\<rparr>"

definition from_double :: "jdouble \<Rightarrow> JEValue" where
  "from_double v = JEValue_unset\<lparr>mTypeCode := kTypeCodeDouble, toDouble := v\<rparr>"

definition from_boolean :: "bool \<Rightarrow> JEValue" where
  "from_boolean v = JEValue_unset\<lparr>mTypeCode := kTypeCodeBool, toBool := v\<rparr>"

definition from_String :: "string \<Rightarrow> JEValue" where
  "from_String v = JEValue_unset\<lparr>mTypeCode := kTypeCodeString, toStr := v\<rparr>"

text \<open>
  \<^verbatim>\<open>JEValue::newJEValueFromEValue\<close>: the chain \<^verbatim>\<open>isTensor\<close>, \<^verbatim>\<open>isInt\<close>,
  \<^verbatim>\<open>isDouble\<close>, \<^verbatim>\<open>isBool\<close>, \<^verbatim>\<open>isString\<close> in the source's order, and the throw
  that follows it.
\<close>
fun newJEValueFromEValue :: "'m NativeDeps \<Rightarrow> EValue \<Rightarrow> JavaException + JEValue" where
  "newJEValueFromEValue deps (ETensor t) =
     (case newJTensorFromTensor deps t of
        Inl e \<Rightarrow> Inl e
      | Inr jt \<Rightarrow> Inr (from_Tensor jt))"
| "newJEValueFromEValue deps (EInt i) = Inr (from_long i)"
| "newJEValueFromEValue deps (EDouble d) = Inr (from_double d)"
| "newJEValueFromEValue deps (EBool b) = Inr (from_boolean b)"
| "newJEValueFromEValue deps (EString s) = Inr (from_String s)"
| "newJEValueFromEValue deps evalue = Inl (UnsupportedEValueType (tag evalue))"

section \<open>The method invoker\<close>

text \<open>
  The last loop of \<^verbatim>\<open>execute_method\<close>: every output goes through
  \<^verbatim>\<open>newJEValueFromEValue\<close>, in order; the first exception ends the loop.
\<close>
fun encode_results :: "'m NativeDeps \<Rightarrow> EValue list \<Rightarrow> JavaException + JEValue list" where
  "encode_results deps [] = Inr []"
| "encode_results deps (ev # rest) =
     (case newJEValueFromEValue deps ev of
        Inl e \<Rightarrow> Inl e
      | Inr jevalue \<Rightarrow>
          (case encode_results deps rest of
             Inl e \<Rightarrow> Inl e
           | Inr jresult \<Rightarrow> Inr (jevalue # jresult)))"

text \<open>
  \<^verbatim>\<open>ExecuTorchJni::execute_method\<close>. The result is the exception thrown or the array
  returned, with the module after the call.
\<close>
definition execute_method ::
  "'m NativeDeps \<Rightarrow> 'm \<Rightarrow> string \<Rightarrow> JEValue list \<Rightarrow> (JavaException + JEValue list) \<times> 'm" where
  "execute_method deps mdl method jinputs =
     (case convert_inputs (java_dtype_to_scalar_type deps) jinputs ([], []) of
        Inl e \<Rightarrow> (Inl e, mdl)
      | Inr (evalues, managed_tensors) \<Rightarrow>
          (case module_execute deps mdl method evalues of
             (Inl err, module') \<Rightarrow> (Inl (ExecutionFailed method err), module')
           | (Inr outs, module') \<Rightarrow> (encode_results deps outs, module')))"

definition forward ::
  "'m NativeDeps \<Rightarrow> 'm \<Rightarrow> JEValue list \<Rightarrow> (JavaException + JEValue list) \<times> 'm" where
  "forward deps mdl jinputs = execute_method deps mdl ''forward'' jinputs"

definition execute ::
  "'m NativeDeps \<Rightarrow> 'm \<Rightarrow> string \<Rightarrow> JEValue list \<Rightarrow> (JavaException + JEValue list) \<times> 'm" where
  "execute deps mdl methodName jinputs = execute_method deps mdl methodName jinputs"

section \<open>The generation module\<close>

text \<open>
  The callback object passed to \<^verbatim>\<open>generate\<close>, as its two methods. Each acts on the
  state \<open>'w\<close> of the managed listener.
\<close>
record ('stats, 'w) LlamaCallback =
  onResult :: "string \<Rightarrow> 'w \<Rightarrow> 'w"
  onStats :: "'stats \<Rightarrow> 'w \<Rightarrow> 'w"

text \<open>
  The runner of \<^verbatim>\<open>examples/models/llama2/runner/runner.h\<close> is outside this file:
  \<^verbatim>\<open>Runner::generate(prompt, seq_len, token_callback, stats_callback)\<close>,
  \<^verbatim>\<open>Runner::load()\<close> and \<^verbatim>\<open>Runner::stop()\<close> are parameters. The first two return
  an \<^verbatim>\<open>Error\<close>.
\<close>
record ('stats, 'w) Runner =
  runner_generate ::
    "string \<Rightarrow> 32 word \<Rightarrow> (string \<Rightarrow> 'w \<Rightarrow> 'w) \<Rightarrow> ('stats \<Rightarrow> 'w \<Rightarrow> 'w) \<Rightarrow> 'w \<Rightarrow> Error \<times> 'w"
  runner_load :: "'w \<Rightarrow> Error \<times> 'w"
  runner_stop :: "'w \<Rightarrow> 'w"

text \<open>
  \<^verbatim>\<open>ExecuTorchLlamaJni::generate\<close>: the value of \<^verbatim>\<open>runner_->generate(...)\<close> is
  dropped and the function ends with \<^verbatim>\<open>return 0\<close>.
\<close>
definition generate ::
  "('stats, 'w) Runner \<Rightarrow> string \<Rightarrow> ('stats, 'w) LlamaCallback \<Rightarrow> 'w \<Rightarrow> jint \<times> 'w" where
  "generate runner prompt callback w =
     (case runner_generate runner prompt 128
             (\<lambda>result. onResult callback result)
             (\<lambda>result. onStats callback result) w of
        (status, w') \<Rightarrow> (0, w'))"

text \<open>\<^verbatim>\<open>ExecuTorchLlamaJni::stop\<close>.\<close>
definition stop :: "('stats, 'w) Runner \<Rightarrow> 'w \<Rightarrow> 'w" where
  "stop runner w = runner_stop runner w"

text \<open>\<^verbatim>\<open>ExecuTorchLlamaJni::load\<close>: \<^verbatim>\<open>static_cast<jint>(runner_->load())\<close>.\<close>
definition load :: "('stats, 'w) Runner \<Rightarrow> 'w \<Rightarrow> jint \<times> 'w" where
  "load runner w = (case runner_load runner w of (status, w') \<Rightarrow> (ucast status, w'))"

section \<open>Registration at library load\<close>

text \<open>
  The method table of the native-interface runtime: the pairs of a class descriptor and a
  method name registered so far, in order of registration.
\<close>
type_synonym method_table = "(string \<times> string) list"

text \<open>
  \<^verbatim>\<open>registerHybrid\<close> registers the listed methods for the class of the given
  descriptor.
\<close>
definition registerHybrid :: "string \<Rightarrow> string list \<Rightarrow> method_table \<Rightarrow> method_table" where
  "registerHybrid kJavaDescriptor names table = table @ map (\<lambda>n. (kJavaDescriptor, n)) names"

definition ExecuTorchJni_registerNatives :: "method_table \<Rightarrow> method_table" where
  "ExecuTorchJni_registerNatives =
     registerHybrid ''Lorg/pytorch/executorch/NativePeer;''
       [''initHybrid'', ''forward'', ''execute'', ''loadMethod'']"

definition ExecuTorchLlamaJni_registerNatives :: "method_table \<Rightarrow> method_table" where
  "ExecuTorchLlamaJni_registerNatives =
     registerHybrid ''Lorg/pytorch/executorch/LlamaModule;''
       [''initHybrid'', ''generate'', ''stop'', ''load'']"

text \<open>
  \<^verbatim>\<open>jni_init_function_registry\<close> is a vector of functions, empty at first;
  \<^verbatim>\<open>register_jni_init_function\<close> pushes one and returns 0.
\<close>
type_synonym registry = "(method_table \<Rightarrow> method_table) list"

definition register_jni_init_function ::
  "(method_table \<Rightarrow> method_table) \<Rightarrow> registry \<Rightarrow> int \<times> registry" where
  "register_jni_init_function f reg = (0, reg @ [f])"

text \<open>
  The registry after the static initialisers of the file have run: the one call
  \<^verbatim>\<open>register_jni_init_function(executorch_jni::ExecuTorchJni::registerNatives)\<close>
  that initialises \<^verbatim>\<open>register_jni_init_function_success\<close>.
\<close>
definition jni_init_function_registry :: registry where
  "jni_init_function_registry =
     snd (register_jni_init_function ExecuTorchJni_registerNatives [])"

text \<open>
  \<^verbatim>\<open>JNI_OnLoad\<close>: \<^verbatim>\<open>for (auto& f : jni_init_function_registry) f();\<close>
\<close>
definition JNI_OnLoad :: "registry \<Rightarrow> method_table \<Rightarrow> method_table" where
  "JNI_OnLoad reg table = fold (\<lambda>f t. f t) reg table"

definition registered :: "method_table \<Rightarrow> string \<Rightarrow> bool" where
  "registered table name = (name \<in> snd ` set table)"

section \<open>The element count of the spec\<close>

text \<open>
  The element count as the spec words it: the product of the dimension sizes of the
  declared shape, 1 for rank zero, as a mathematical integer.
\<close>
definition spec_element_count :: "TensorHybrid \<Rightarrow> int" where
  "spec_element_count t = prod_list (map sint (shape t))"

section \<open>Example inputs\<close>

text \<open>
  A managed tensor of shape 2 x 3 with dtype code 6 over a buffer of capacity 5, and a
  table \<^verbatim>\<open>java_dtype_to_scalar_type\<close> that knows the dtype code 6 only.
\<close>
definition tensor_2x3_cap5 :: TensorHybrid where
  "tensor_2x3_cap5 =
     \<lparr>dtypeJniCode = 6, shape = [2, 3],
      getRawDataBuffer = \<lparr>address = 4096, capacity = 5\<rparr>\<rparr>"

definition sample_dtype_table :: "jint \<rightharpoonup> ScalarType" where
  "sample_dtype_table = [6 \<mapsto> 6]"

text \<open>A module whose dispatch fails with status \<open>0x12\<close> for every method name.\<close>
definition failing_deps :: "unit NativeDeps" where
  "failing_deps =
     \<lparr>scalar_type_to_java_dtype = [6 \<mapsto> 6],
      java_dtype_to_scalar_type = sample_dtype_table,
      nbytes = (\<lambda>t. 0),
      module_execute = (\<lambda>m method evalues. (Inl 0x12, m))\<rparr>"

text \<open>
  A runner whose \<^verbatim>\<open>generate\<close> and \<^verbatim>\<open>load\<close> fail with status \<open>0x12\<close> and
  call nothing back, and a listener that records the partial results it is given.
\<close>
definition failing_runner :: "(nat, string list) Runner" where
  "failing_runner =
     \<lparr>runner_generate = (\<lambda>prompt seq_len token_callback stats_callback w. (0x12, w)),
      runner_load = (\<lambda>w. (0x12, w)),
      runner_stop = (\<lambda>w. w)\<rparr>"

definition recording_callback :: "(nat, string list) LlamaCallback" where
  "recording_callback = \<lparr>onResult = (\<lambda>s w. w @ [s]), onStats = (\<lambda>st w. w)\<rparr>"

section \<open>Facts about the definitions\<close>

lemmas kTypeCode_defs =
  kTypeCodeTensor_def kTypeCodeString_def kTypeCodeDouble_def kTypeCodeInt_def
  kTypeCodeBool_def

section \<open>The element count computed by the tensor conversion\<close>

lemma take_bit_32_mult_64:
  "take_bit 32 (take_bit 64 x * take_bit 64 y) = take_bit 32 (x * y)" for x y :: int
proof -
  have "take_bit 32 (take_bit 64 x * take_bit 64 y) =
      take_bit 32 (take_bit 32 (take_bit 64 x) * take_bit 32 (take_bit 64 y))"
    by (simp only: take_bit_mult)
  also have "\<dots> = take_bit 32 (take_bit 32 x * take_bit 32 y)"
    by (simp add: take_bit_take_bit)
  also have "\<dots> = take_bit 32 (x * y)"
    by (simp only: take_bit_mult)
  finally show ?thesis .
qed

lemma ucast_mult_64_32: "(ucast ((x :: 64 word) * y) :: 32 word) = ucast x * ucast y"
  by transfer (simp add: take_bit_32_mult_64)

lemma ucast_scast_32_64_32: "(ucast (scast (a :: 32 word) :: 64 word) :: 32 word) = a"
  by (rule bit_word_eqI) (auto simp add: bit_simps)

lemma ucast_64_32_sint: "(ucast (d :: 64 word) :: 32 word) = word_of_int (sint d)"
  by (rule bit_word_eqI) (auto simp add: bit_simps)

text \<open>A step multiplies modulo \<open>2 ^ 32\<close>.\<close>
lemma numel_step_mult: "numel_step a d = a * word_of_int (sint d)"
proof -
  have "numel_step a d = ucast (scast a :: 64 word) * ucast d"
    unfolding numel_step_def by (rule ucast_mult_64_32)
  also have "\<dots> = a * ucast d" by (simp only: ucast_scast_32_64_32)
  also have "\<dots> = a * word_of_int (sint d)" by (simp only: ucast_64_32_sint)
  finally show ?thesis .
qed

lemma numel_loop_prod:
  "n \<le> length arr \<Longrightarrow>
   numel_loop arr n acc = acc * word_of_int (prod_list (map sint (take n arr)))"
proof (induction n arbitrary: acc)
  case 0
  then show ?case by simp
next
  case (Suc n)
  then have lt: "n < length arr" by simp
  have "take (Suc n) arr = take n arr @ [arr ! n]"
    using lt by (simp add: take_Suc_conv_app_nth)
  then have "prod_list (map sint (take (Suc n) arr)) =
      sint (arr ! n) * prod_list (map sint (take n arr))"
    by simp
  then have "(word_of_int (prod_list (map sint (take (Suc n) arr))) :: 32 word) =
      word_of_int (sint (arr ! n)) * word_of_int (prod_list (map sint (take n arr)))"
    by (simp only: wi_hom_mult)
  moreover have "numel_loop arr (Suc n) acc =
      numel_step acc (arr ! n) * word_of_int (prod_list (map sint (take n arr)))"
    using Suc.IH [of "numel_step acc (arr ! n)"] lt by simp
  ultimately show ?case by (simp only: numel_step_mult mult.assoc)
qed

text \<open>
  The loop leaves in \<^verbatim>\<open>numel\<close> the product of the dimensions reduced to 32 bits.
\<close>
lemma numel_loop_full:
  "numel_loop arr (length arr) 1 = word_of_int (prod_list (map sint arr))"
  using numel_loop_prod [of "length arr" arr 1] by simp

lemma sint_word_of_int_32:
  assumes "- (2 ^ 31) \<le> p" "p < 2 ^ 31"
  shows "sint (word_of_int p :: 32 word) = p"
  using assms by (simp add: sint_sbintrunc' signed_take_bit_int_eq_self)

lemma sint_scast_32_64: "sint (scast (a :: 32 word) :: 64 word) = sint a"
  by (rule sint_up_scast) (simp add: is_up)

section \<open>Properties of the input conversion\<close>

lemma convert_inputs_skip:
  assumes "mTypeCode jv \<noteq> kTypeCodeTensor" "mTypeCode jv \<noteq> kTypeCodeInt"
    "mTypeCode jv \<noteq> kTypeCodeDouble" "mTypeCode jv \<noteq> kTypeCodeBool"
  shows "convert_inputs tbl (xs @ jv # ys) st = convert_inputs tbl (xs @ ys) st"
proof (induction xs arbitrary: st)
  case Nil
  obtain evs mts where st: "st = (evs, mts)" by (cases st)
  show ?case using assms by (simp add: st)
next
  case (Cons x xs)
  obtain evs mts where st: "st = (evs, mts)" by (cases st)
  show ?case by (simp add: st Cons.IH Let_def split: sum.splits)
qed

lemma convert_inputs_skip_single:
  assumes "mTypeCode jv \<noteq> kTypeCodeTensor" "mTypeCode jv \<noteq> kTypeCodeInt"
    "mTypeCode jv \<noteq> kTypeCodeDouble" "mTypeCode jv \<noteq> kTypeCodeBool"
  shows "convert_inputs tbl [jv] st = Inr st"
proof -
  obtain evs mts where st: "st = (evs, mts)" by (cases st)
  show ?thesis using assms by (simp add: st)
qed

text \<open>
  When the loop ends without an exception, \<^verbatim>\<open>evalues\<close> holds what it held before
  followed by the values of the inputs, in the order of the inputs.
\<close>
lemma convert_inputs_values:
  "convert_inputs tbl inputs (evs, mts) = Inr (evs', mts') \<Longrightarrow>
   evs' = evs @ concat (map (input_values tbl) inputs)"
proof (induction inputs arbitrary: evs mts)
  case Nil
  then show ?case by simp
next
  case (Cons jv rest)
  show ?case
  proof (cases "mTypeCode jv = kTypeCodeTensor")
    case True
    show ?thesis
    proof (cases "JEValueToTensorImpl tbl jv")
      case (Inl e)
      with True Cons.prems show ?thesis by simp
    next
      case (Inr mt)
      with True Cons.prems
      have "convert_inputs tbl rest
          (evs @ [ETensor (get_aliasing_tensor mt)], mts @ [mt]) = Inr (evs', mts')"
        by simp
      from Cons.IH [OF this] True Inr show ?thesis
        by (simp add: input_values_def)
    qed
  next
    case False
    consider (int) "mTypeCode jv = kTypeCodeInt"
      | (double) "mTypeCode jv \<noteq> kTypeCodeInt" "mTypeCode jv = kTypeCodeDouble"
      | (bool) "mTypeCode jv \<noteq> kTypeCodeInt" "mTypeCode jv \<noteq> kTypeCodeDouble"
          "mTypeCode jv = kTypeCodeBool"
      | (none) "mTypeCode jv \<noteq> kTypeCodeInt" "mTypeCode jv \<noteq> kTypeCodeDouble"
          "mTypeCode jv \<noteq> kTypeCodeBool"
      by blast
    then show ?thesis
    proof cases
      case int
      with False Cons.prems
      have "convert_inputs tbl rest (evs @ [EInt (scast (mTypeCode jv))], mts) = Inr (evs', mts')"
        by (simp add: Let_def)
      from Cons.IH [OF this] False int show ?thesis
        by (simp add: input_values_def Let_def)
    next
      case double
      with False Cons.prems
      have "convert_inputs tbl rest
          (evs @ [EDouble (real_of_int (sint (mTypeCode jv)))], mts) = Inr (evs', mts')"
        by (simp add: Let_def)
      from Cons.IH [OF this] False double show ?thesis
        by (simp add: input_values_def Let_def)
    next
      case bool
      with False Cons.prems
      have "convert_inputs tbl rest (evs @ [EBool (mTypeCode jv \<noteq> 0)], mts) = Inr (evs', mts')"
        by (simp add: Let_def)
      from Cons.IH [OF this] False bool show ?thesis
        by (simp add: input_values_def Let_def)
    next
      case none
      with False Cons.prems
      have "convert_inputs tbl rest (evs, mts) = Inr (evs', mts')"
        by (simp add: Let_def)
      from Cons.IH [OF this] False none show ?thesis
        by (simp add: input_values_def Let_def)
    qed
  qed
qed

lemma JEValueToTensorImpl_mismatch:
  assumes tc: "mTypeCode jev = kTypeCodeTensor"
    and lo: "- (2 ^ 31) \<le> spec_element_count (toTensor jev)"
    and hi: "spec_element_count (toTensor jev) < 2 ^ 31"
    and neq: "spec_element_count (toTensor jev) \<noteq>
      sint (capacity (getRawDataBuffer (toTensor jev)))"
  shows "JEValueToTensorImpl tbl jev =
     (case tbl (dtypeJniCode (toTensor jev)) of
        None \<Rightarrow> Inl (UnknownTensorJdtype (dtypeJniCode (toTensor jev)))
      | Some s \<Rightarrow>
          Inl (TensorDimsInconsistent (word_of_int (spec_element_count (toTensor jev)))
                 (capacity (getRawDataBuffer (toTensor jev)))))"
proof -
  let ?t = "toTensor jev"
  let ?n = "numel_loop (shape ?t) (length (shape ?t)) 1"
  have n: "?n = word_of_int (spec_element_count ?t)"
    by (simp only: numel_loop_full spec_element_count_def)
  have "sint (scast ?n :: 64 word) = spec_element_count ?t"
    by (simp only: n sint_scast_32_64 sint_word_of_int_32 [OF lo hi])
  then have ne: "capacity (getRawDataBuffer ?t) \<noteq> scast ?n"
    using neq by auto
  show ?thesis
    using ne tc by (simp add: JEValueToTensorImpl_def Let_def n split: option.splits)
qed


section \<open>Claims\<close>

text \<open>
  C1. The claim: for an input of type code Int, Double or Bool the native value appended
  equals the scalar payload of the managed object. The code reads the field
  \<^verbatim>\<open>mTypeCode\<close> a second time instead of the payload: managed inputs Int 7,
  Double 2.5 and Bool false are converted to Int 4, Double 3 and Bool true.
\<close>
theorem scalar_inputs_read_type_code:
  "convert_inputs tbl
     [JEValue_unset\<lparr>mTypeCode := kTypeCodeInt, toInt := 7\<rparr>,
      JEValue_unset\<lparr>mTypeCode := kTypeCodeDouble, toDouble := 5 / 2\<rparr>,
      JEValue_unset\<lparr>mTypeCode := kTypeCodeBool, toBool := False\<rparr>]
     ([], []) = Inr ([EInt 4, EDouble 3, EBool True], [])"
  by (simp add: JEValue_unset_def kTypeCode_defs)

text \<open>
  C2. The claim: at library load every entry point is registered, those of the generation
  class included. \<^verbatim>\<open>JNI_OnLoad\<close> runs the functions of the registry, and the file
  puts only \<^verbatim>\<open>ExecuTorchJni::registerNatives\<close> there: the table holds the four
  methods of the module class, and \<^verbatim>\<open>generate\<close>, \<^verbatim>\<open>stop\<close> and \<^verbatim>\<open>load\<close> are
  not registered.
\<close>
theorem JNI_OnLoad_registers_module_class_only:
  "JNI_OnLoad jni_init_function_registry [] =
     [(''Lorg/pytorch/executorch/NativePeer;'', ''initHybrid''),
      (''Lorg/pytorch/executorch/NativePeer;'', ''forward''),
      (''Lorg/pytorch/executorch/NativePeer;'', ''execute''),
      (''Lorg/pytorch/executorch/NativePeer;'', ''loadMethod'')] \<and>
   \<not> registered (JNI_OnLoad jni_init_function_registry []) ''generate'' \<and>
   \<not> registered (JNI_OnLoad jni_init_function_registry []) ''stop'' \<and>
   \<not> registered (JNI_OnLoad jni_init_function_registry []) ''load''"
  by (simp add: JNI_OnLoad_def jni_init_function_registry_def register_jni_init_function_def
      ExecuTorchJni_registerNatives_def registerHybrid_def registered_def)

text \<open>
  C3. The claim: \<^verbatim>\<open>generate\<close> returns the status of the runner's generation call.
  With a runner that fails with status \<open>0x12\<close>, \<^verbatim>\<open>generate\<close> returns 0, while
  \<^verbatim>\<open>load\<close> on the same runner returns the status.
\<close>
theorem generate_drops_runner_status:
  "fst (runner_generate failing_runner ''hello'' 128
          (onResult recording_callback) (onStats recording_callback) []) = 0x12 \<and>
   fst (generate failing_runner ''hello'' recording_callback []) = 0 \<and>
   fst (load failing_runner []) = 0x12"
  by (simp add: generate_def load_def failing_runner_def recording_callback_def)

text \<open>
  C5, as the claim states it, fails in two ways. With a dtype code that the table does not
  know, a tensor of 6 elements over a buffer of capacity 5 is refused for its dtype, not
  for its shape. With the shape 65536 x 65536 over a buffer of capacity 0 the 32-bit
  \<^verbatim>\<open>numel\<close> wraps to 0, and the conversion returns a tensor view.
\<close>
theorem tensor_shape_mismatch_counterexample:
  "spec_element_count (tensor_2x3_cap5\<lparr>dtypeJniCode := 99\<rparr>) \<noteq>
     sint (capacity (getRawDataBuffer (tensor_2x3_cap5\<lparr>dtypeJniCode := 99\<rparr>))) \<and>
   JEValueToTensorImpl sample_dtype_table (from_Tensor (tensor_2x3_cap5\<lparr>dtypeJniCode := 99\<rparr>)) =
     Inl (UnknownTensorJdtype 99) \<and>
   spec_element_count
     \<lparr>dtypeJniCode = 6, shape = [65536, 65536],
      getRawDataBuffer = \<lparr>address = 4096, capacity = 0\<rparr>\<rparr> \<noteq>
     sint (capacity (getRawDataBuffer
       \<lparr>dtypeJniCode = 6, shape = [65536, 65536],
        getRawDataBuffer = \<lparr>address = 4096, capacity = 0\<rparr>\<rparr>)) \<and>
   JEValueToTensorImpl sample_dtype_table
     (from_Tensor \<lparr>dtypeJniCode = 6, shape = [65536, 65536],
                   getRawDataBuffer = \<lparr>address = 4096, capacity = 0\<rparr>\<rparr>) =
     Inr \<lparr>mt_data = 4096, mt_sizes = [65536, 65536], mt_dtype = 6\<rparr>"
  by (simp add: JEValueToTensorImpl_def from_Tensor_def JEValue_unset_def tensor_2x3_cap5_def
      sample_dtype_table_def spec_element_count_def kTypeCode_defs numel_step_def Let_def)

text \<open>
  C5, amended. For a managed tensor whose element count (the product of its dimension
  sizes, 1 for rank zero) fits a 32-bit signed integer and differs from the capacity of
  its buffer, the conversion fails and produces no tensor view, alone and as an input of
  \<^verbatim>\<open>execute_method\<close>. When the table knows the dtype code, the error is the
  inconsistency of shape and buffer and carries both counts; when it does not, the error
  is the unknown dtype code.
\<close>
theorem tensor_shape_mismatch_fails:
  assumes tc: "mTypeCode jev = kTypeCodeTensor"
    and lo: "- (2 ^ 31) \<le> spec_element_count (toTensor jev)"
    and hi: "spec_element_count (toTensor jev) < 2 ^ 31"
    and neq: "spec_element_count (toTensor jev) \<noteq>
      sint (capacity (getRawDataBuffer (toTensor jev)))"
  shows "(\<exists>e. JEValueToTensorImpl tbl jev = Inl e \<and>
            convert_inputs tbl (jev # rest) st = Inl e) \<and>
    (\<forall>s. tbl (dtypeJniCode (toTensor jev)) = Some s \<longrightarrow>
       (\<exists>numel. sint numel = spec_element_count (toTensor jev) \<and>
          JEValueToTensorImpl tbl jev =
            Inl (TensorDimsInconsistent numel (capacity (getRawDataBuffer (toTensor jev)))))) \<and>
    (tbl (dtypeJniCode (toTensor jev)) = None \<longrightarrow>
       JEValueToTensorImpl tbl jev = Inl (UnknownTensorJdtype (dtypeJniCode (toTensor jev))))"
proof -
  note aux = JEValueToTensorImpl_mismatch [OF tc lo hi neq, of tbl]
  obtain evs mts where st: "st = (evs, mts)" by (cases st)
  have 1: "\<exists>e. JEValueToTensorImpl tbl jev = Inl e \<and>
      convert_inputs tbl (jev # rest) st = Inl e"
    using aux tc by (cases "tbl (dtypeJniCode (toTensor jev))") (simp_all add: st)
  have 2: "\<forall>s. tbl (dtypeJniCode (toTensor jev)) = Some s \<longrightarrow>
       (\<exists>numel. sint numel = spec_element_count (toTensor jev) \<and>
          JEValueToTensorImpl tbl jev =
            Inl (TensorDimsInconsistent numel (capacity (getRawDataBuffer (toTensor jev)))))"
    using aux sint_word_of_int_32 [OF lo hi] by auto
  have 3: "tbl (dtypeJniCode (toTensor jev)) = None \<longrightarrow>
       JEValueToTensorImpl tbl jev = Inl (UnknownTensorJdtype (dtypeJniCode (toTensor jev)))"
    using aux by simp
  from 1 2 3 show ?thesis by blast
qed

theorem tensor_shape_mismatch_fails_witness:
  "mTypeCode (from_Tensor tensor_2x3_cap5) = kTypeCodeTensor \<and>
   spec_element_count (toTensor (from_Tensor tensor_2x3_cap5)) = 6 \<and>
   sint (capacity (getRawDataBuffer (toTensor (from_Tensor tensor_2x3_cap5)))) = 5 \<and>
   JEValueToTensorImpl sample_dtype_table (from_Tensor tensor_2x3_cap5) =
     Inl (TensorDimsInconsistent 6 5) \<and>
   convert_inputs sample_dtype_table [from_Tensor tensor_2x3_cap5] ([], []) =
     Inl (TensorDimsInconsistent 6 5)"
proof -
  have tc: "mTypeCode (from_Tensor tensor_2x3_cap5) = kTypeCodeTensor"
    by (simp add: from_Tensor_def)
  have cnt: "spec_element_count (toTensor (from_Tensor tensor_2x3_cap5)) = 6"
    by (simp add: from_Tensor_def tensor_2x3_cap5_def spec_element_count_def)
  have cap: "sint (capacity (getRawDataBuffer (toTensor (from_Tensor tensor_2x3_cap5)))) = 5"
    by (simp add: from_Tensor_def tensor_2x3_cap5_def)
  have dt: "sample_dtype_table (dtypeJniCode (toTensor (from_Tensor tensor_2x3_cap5))) = Some 6"
    by (simp add: from_Tensor_def tensor_2x3_cap5_def sample_dtype_table_def)
  have lo: "- (2 ^ 31) \<le> spec_element_count (toTensor (from_Tensor tensor_2x3_cap5))"
    by (simp add: cnt)
  have hi: "spec_element_count (toTensor (from_Tensor tensor_2x3_cap5)) < 2 ^ 31"
    by (simp add: cnt)
  have neq: "spec_element_count (toTensor (from_Tensor tensor_2x3_cap5)) \<noteq>
      sint (capacity (getRawDataBuffer (toTensor (from_Tensor tensor_2x3_cap5))))"
    by (simp add: cnt cap)
  note inst = tensor_shape_mismatch_fails [OF tc lo hi neq, of sample_dtype_table "[]" "([], [])"]
  from inst dt obtain numel where
    n: "sint numel = spec_element_count (toTensor (from_Tensor tensor_2x3_cap5))" and
    r: "JEValueToTensorImpl sample_dtype_table (from_Tensor tensor_2x3_cap5) =
      Inl (TensorDimsInconsistent numel
        (capacity (getRawDataBuffer (toTensor (from_Tensor tensor_2x3_cap5)))))"
    by blast
  have "sint numel = sint (6 :: 32 word)" using n cnt by simp
  then have n6: "numel = 6" by (rule signed_word_eqI)
  have c5: "capacity (getRawDataBuffer (toTensor (from_Tensor tensor_2x3_cap5))) = 5"
    by (simp add: from_Tensor_def tensor_2x3_cap5_def)
  have r': "JEValueToTensorImpl sample_dtype_table (from_Tensor tensor_2x3_cap5) =
      Inl (TensorDimsInconsistent 6 5)"
    using r n6 c5 by simp
  from inst r' have "convert_inputs sample_dtype_table [from_Tensor tensor_2x3_cap5] ([], []) =
      Inl (TensorDimsInconsistent 6 5)"
    by auto
  with tc cnt cap r' show ?thesis by simp
qed

text \<open>
  C6. An input whose type code is none of the five recognised codes raises no error and
  appends no native value: alone it leaves the state of the loop as it was, and among
  other inputs the loop yields what it yields without it. The values decoded from the
  other inputs keep the order of the inputs: when the loop ends, \<^verbatim>\<open>evalues\<close> holds
  what it held before, then the values of the inputs before the skipped one in their
  order, then the values of the inputs after it in their order.
\<close>
theorem unrecognized_type_code_skipped:
  assumes "mTypeCode jv \<notin>
    {kTypeCodeTensor, kTypeCodeString, kTypeCodeDouble, kTypeCodeInt, kTypeCodeBool}"
  shows "convert_inputs tbl [jv] st = Inr st \<and>
    convert_inputs tbl (xs @ jv # ys) st = convert_inputs tbl (xs @ ys) st \<and>
    input_values tbl jv = [] \<and>
    (\<forall>evs mts evs' mts'.
       convert_inputs tbl (xs @ jv # ys) (evs, mts) = Inr (evs', mts') \<longrightarrow>
       evs' = evs @ concat (map (input_values tbl) xs) @ concat (map (input_values tbl) ys))"
proof -
  have ne: "mTypeCode jv \<noteq> kTypeCodeTensor" "mTypeCode jv \<noteq> kTypeCodeInt"
    "mTypeCode jv \<noteq> kTypeCodeDouble" "mTypeCode jv \<noteq> kTypeCodeBool"
    using assms by simp_all
  have 1: "convert_inputs tbl [jv] st = Inr st"
    using ne by (rule convert_inputs_skip_single)
  have 2: "convert_inputs tbl (xs @ jv # ys) st = convert_inputs tbl (xs @ ys) st"
    using ne by (rule convert_inputs_skip)
  have 3: "input_values tbl jv = []"
    using ne by (simp add: input_values_def)
  have 4: "evs' = evs @ concat (map (input_values tbl) xs) @ concat (map (input_values tbl) ys)"
    if "convert_inputs tbl (xs @ jv # ys) (evs, mts) = Inr (evs', mts')" for evs mts evs' mts'
    using convert_inputs_values [OF that] 3 by simp
  from 1 2 3 4 show ?thesis by blast
qed

theorem unrecognized_type_code_skipped_witness:
  "mTypeCode (JEValue_unset\<lparr>mTypeCode := 9\<rparr>) \<notin>
     {kTypeCodeTensor, kTypeCodeString, kTypeCodeDouble, kTypeCodeInt, kTypeCodeBool} \<and>
   convert_inputs sample_dtype_table [JEValue_unset\<lparr>mTypeCode := 9\<rparr>] ([], []) = Inr ([], []) \<and>
   convert_inputs sample_dtype_table
     ([from_boolean False] @ JEValue_unset\<lparr>mTypeCode := 9\<rparr> # [from_long 7, from_double 0])
     ([], []) = Inr ([EBool True, EInt 4, EDouble 3], []) \<and>
   [EBool True, EInt 4, EDouble 3] =
     [] @ concat (map (input_values sample_dtype_table) [from_boolean False]) @
       concat (map (input_values sample_dtype_table) [from_long 7, from_double 0])"
proof -
  have h: "mTypeCode (JEValue_unset\<lparr>mTypeCode := 9\<rparr>) \<notin>
     {kTypeCodeTensor, kTypeCodeString, kTypeCodeDouble, kTypeCodeInt, kTypeCodeBool}"
    by (simp add: kTypeCode_defs)
  have r: "convert_inputs sample_dtype_table
     ([from_boolean False] @ JEValue_unset\<lparr>mTypeCode := 9\<rparr> # [from_long 7, from_double 0])
     ([], []) = Inr ([EBool True, EInt 4, EDouble 3], [])"
    by (simp add: from_boolean_def from_long_def from_double_def JEValue_unset_def
        kTypeCode_defs)
  note inst = unrecognized_type_code_skipped [OF h, of sample_dtype_table "([], [])"
      "[from_boolean False]" "[from_long 7, from_double 0]"]
  from inst have 1:
    "convert_inputs sample_dtype_table [JEValue_unset\<lparr>mTypeCode := 9\<rparr>] ([], []) = Inr ([], [])"
    by blast
  from inst r have 2: "[EBool True, EInt 4, EDouble 3] =
     [] @ concat (map (input_values sample_dtype_table) [from_boolean False]) @
       concat (map (input_values sample_dtype_table) [from_long 7, from_double 0])"
    by blast
  from h 1 r 2 show ?thesis by blast
qed

text \<open>
  C7. When the dispatch of the native module returns an error status, whatever the
  method name, \<^verbatim>\<open>execute\<close> raises the one exception that carries the method name
  and the status, and returns no array of outputs; so does \<^verbatim>\<open>forward\<close>, whose method
  name is \<^verbatim>\<open>forward\<close>.
\<close>
theorem execute_method_native_failure:
  assumes "convert_inputs (java_dtype_to_scalar_type deps) jinputs ([], []) =
      Inr (evalues, managed_tensors)"
    and "module_execute deps mdl method evalues = (Inl status, mdl')"
  shows "execute deps mdl method jinputs = (Inl (ExecutionFailed method status), mdl') \<and>
    (method = ''forward'' \<longrightarrow>
       forward deps mdl jinputs = (Inl (ExecutionFailed ''forward'' status), mdl'))"
  using assms by (auto simp add: execute_def forward_def execute_method_def)

theorem execute_method_native_failure_witness:
  "convert_inputs (java_dtype_to_scalar_type failing_deps) [from_long 7] ([], []) =
     Inr ([EInt 4], []) \<and>
   module_execute failing_deps () ''forward'' [EInt 4] = (Inl 0x12, ()) \<and>
   execute failing_deps () ''forward'' [from_long 7] =
     (Inl (ExecutionFailed ''forward'' 0x12), ()) \<and>
   forward failing_deps () [from_long 7] = (Inl (ExecutionFailed ''forward'' 0x12), ())"
proof -
  have c: "convert_inputs (java_dtype_to_scalar_type failing_deps) [from_long 7] ([], []) =
     Inr ([EInt 4], [])"
    by (simp add: from_long_def JEValue_unset_def kTypeCode_defs)
  have m: "module_execute failing_deps () ''forward'' [EInt 4] = (Inl 0x12, ())"
    by (simp add: failing_deps_def)
  show ?thesis
    using c m execute_method_native_failure [OF c m] by simp
qed

text \<open>
  C8. A native value whose tag is none of Tensor, Int, Double, Bool and String is not
  converted: \<^verbatim>\<open>newJEValueFromEValue\<close> raises the exception that carries the tag, and
  the loop over the outputs of a call ends with it.
\<close>
theorem unsupported_tag_fails:
  assumes "tag evalue \<notin> {TagTensor, TagInt, TagDouble, TagBool, TagString}"
  shows "newJEValueFromEValue deps evalue = Inl (UnsupportedEValueType (tag evalue)) \<and>
    encode_results deps (evalue # rest) = Inl (UnsupportedEValueType (tag evalue))"
  using assms by (cases evalue) simp_all

theorem unsupported_tag_fails_witness:
  "tag (EOther 0) \<notin> {TagTensor, TagInt, TagDouble, TagBool, TagString} \<and>
   newJEValueFromEValue failing_deps (EOther 0) = Inl (UnsupportedEValueType (TagOther 0)) \<and>
   encode_results failing_deps [EOther 0, EInt 1] = Inl (UnsupportedEValueType (TagOther 0))"
proof -
  have h: "tag (EOther 0) \<notin> {TagTensor, TagInt, TagDouble, TagBool, TagString}"
    by simp
  show ?thesis
    using h unsupported_tag_fails [OF h, of failing_deps "[EInt 1]"] by simp
qed

text \<open>
  C9. The claim: encoding a native value and decoding it again gives the value back. The
  native Int 7 is encoded as the managed value of type code Int with payload 7, and the
  input conversion of \<^verbatim>\<open>execute_method\<close> decodes that as Int 4; a native String
  is encoded and then decoded to nothing.
\<close>
theorem round_trip_loses_value:
  "newJEValueFromEValue deps (EInt 7) = Inr (from_long 7) \<and>
   convert_inputs tbl [from_long 7] ([], []) = Inr ([EInt 4], []) \<and>
   newJEValueFromEValue deps (EString ''a'') = Inr (from_String ''a'') \<and>
   convert_inputs tbl [from_String ''a''] ([], []) = Inr ([], [])"
  by (simp add: from_long_def from_String_def JEValue_unset_def kTypeCode_defs)

text \<open>
  C10. An input of type code String raises no error and appends no native value: the
  loop has no branch for it. Among other inputs the loop yields what it yields without
  it, so the values of the inputs after it move one position forward.
\<close>
theorem string_input_dropped:
  assumes "mTypeCode jv = kTypeCodeString"
  shows "convert_inputs tbl [jv] st = Inr st \<and>
    convert_inputs tbl (xs @ jv # ys) st = convert_inputs tbl (xs @ ys) st"
proof -
  have "mTypeCode jv \<noteq> kTypeCodeTensor" "mTypeCode jv \<noteq> kTypeCodeInt"
    "mTypeCode jv \<noteq> kTypeCodeDouble" "mTypeCode jv \<noteq> kTypeCodeBool"
    using assms by (simp_all add: kTypeCode_defs)
  then show ?thesis
    using convert_inputs_skip [of jv tbl xs ys st] convert_inputs_skip_single [of jv tbl st]
    by simp
qed

theorem string_input_dropped_witness:
  "mTypeCode (from_String ''abc'') = kTypeCodeString \<and>
   convert_inputs sample_dtype_table [from_String ''abc''] ([], []) = Inr ([], []) \<and>
   convert_inputs sample_dtype_table ([] @ from_String ''abc'' # [from_boolean False]) ([], []) =
     Inr ([EBool True], [])"
proof -
  have h: "mTypeCode (from_String ''abc'') = kTypeCodeString"
    by (simp add: from_String_def)
  have r: "convert_inputs sample_dtype_table ([] @ [from_boolean False]) ([], []) =
      Inr ([EBool True], [])"
    by (simp add: from_boolean_def JEValue_unset_def kTypeCode_defs)
  show ?thesis
    using h r string_input_dropped [OF h, of sample_dtype_table "([], [])" "[]"
        "[from_boolean False]"]
    by simp
qed

end
